theory Spec2Isabelle
  imports Main "HOL-Library.Word"
begin

unbundle bit_operations_syntax

section \<open>Common types\<close>

text \<open>
  Go's \<open>uint32\<close> and \<open>uint64\<close> are words (addition wraps around); Go's \<open>int\<close> is
  modelled as \<open>int\<close>: the only \<open>int\<close> arithmetic in the code is a comparison, a
  count of slice lengths and \<open>idx - 1\<close>.

  A Go function either returns its results, panics (an index out of range, a nil
  dereference), or ends the process through \<open>fatalIf\<close>.
\<close>

type_synonym u32 = "32 word"
type_synonym u64 = "64 word"

datatype 'a outcome = Returns 'a | Panics string | Exits string

text \<open>
  A Go \<open>error\<close> value: \<open>errors.New\<close> and \<open>fmt.Errorf\<close> give an \<open>errorString\<close>,
  \<open>strconv\<close> gives a \<open>NumError\<close> (function, input, reason). A nil error is \<open>None\<close>.
\<close>

datatype error = errorString string | NumError string string string

section \<open>Cluster-info aggregation (cmd/subnet-utils.go)\<close>

text \<open>The fields of madmin's \<open>InfoMessage\<close> that the code reads.\<close>

record Disk =
  TotalSpace :: u64
  UsedSpace :: u64

record ServerProperties =
  PoolNumber :: int
  Version :: string
  Disks :: "Disk list"

record Usage =
  Size :: u64

record Buckets =
  Count :: u64

record Objects =
  Count :: u64

record InfoMessage =
  DeploymentID :: string
  Usage :: Usage
  Buckets :: Buckets
  Objects :: Objects
  Servers :: "ServerProperties list"

text \<open>The registration payload, with the fields \<open>getClusterRegInfo\<close> fills.\<close>

record ClusterInfo =
  MinioVersion :: string
  NoOfServerPools :: int
  NoOfServers :: int
  NoOfDrives :: int
  TotalDriveSpace :: u64
  UsedDriveSpace :: u64
  NoOfBuckets :: u64
  NoOfObjects :: u64

record ClusterRegistrationInfo =
  RegDeploymentID :: string
  ClusterName :: string
  UsedCapacity :: u64
  Info :: ClusterInfo

text \<open>
  The first loop of \<open>getClusterRegInfo\<close>, over \<open>admInfo.Servers\<close>, with its two
  variables \<open>noOfPools\<close> and \<open>noOfDrives\<close>.
\<close>

fun getClusterRegInfo_loop :: "ServerProperties list \<Rightarrow> int \<Rightarrow> int \<Rightarrow> int \<times> int" where
  "getClusterRegInfo_loop [] noOfPools noOfDrives = (noOfPools, noOfDrives)"
| "getClusterRegInfo_loop (srvr # rest) noOfPools noOfDrives =
     getClusterRegInfo_loop rest
       (if PoolNumber srvr > noOfPools then PoolNumber srvr else noOfPools)
       (noOfDrives + int (length (Disks srvr)))"

text \<open>The two nested loops of \<open>getDriveSpaceInfo\<close>, with the variables \<open>total\<close> and \<open>used\<close> (here \<open>tot\<close>, \<open>usd\<close>).\<close>

fun getDriveSpaceInfo_disks :: "Disk list \<Rightarrow> u64 \<Rightarrow> u64 \<Rightarrow> u64 \<times> u64" where
  "getDriveSpaceInfo_disks [] tot usd = (tot, usd)"
| "getDriveSpaceInfo_disks (d # ds) tot usd =
     getDriveSpaceInfo_disks ds (tot + TotalSpace d) (usd + UsedSpace d)"

fun getDriveSpaceInfo_servers :: "ServerProperties list \<Rightarrow> u64 \<Rightarrow> u64 \<Rightarrow> u64 \<times> u64" where
  "getDriveSpaceInfo_servers [] tot usd = (tot, usd)"
| "getDriveSpaceInfo_servers (srvr # rest) tot usd =
     (case getDriveSpaceInfo_disks (Disks srvr) tot usd of
        (tot', usd') \<Rightarrow> getDriveSpaceInfo_servers rest tot' usd')"

definition getDriveSpaceInfo :: "InfoMessage \<Rightarrow> u64 \<times> u64" where
  "getDriveSpaceInfo admInfo = getDriveSpaceInfo_servers (Servers admInfo) 0 0"

text \<open>
  \<open>getClusterRegInfo\<close>: the struct literal reads \<open>admInfo.Servers[0].Version\<close>, which
  panics on an empty slice.
\<close>

definition getClusterRegInfo :: "InfoMessage \<Rightarrow> string \<Rightarrow> ClusterRegistrationInfo outcome" where
  "getClusterRegInfo admInfo clusterName =
     (case getClusterRegInfo_loop (Servers admInfo) 1 0 of
        (noOfPools, noOfDrives) \<Rightarrow>
     (case getDriveSpaceInfo admInfo of
        (totalSpace, usedSpace) \<Rightarrow>
     (case Servers admInfo of
        [] \<Rightarrow> Panics ''runtime error: index out of range [0] with length 0''
      | srvr0 # _ \<Rightarrow>
          Returns \<lparr>RegDeploymentID = DeploymentID admInfo,
                   ClusterName = clusterName,
                   UsedCapacity = Size (Usage admInfo),
                   Info = \<lparr>MinioVersion = Version srvr0,
                           NoOfServerPools = noOfPools,
                           NoOfServers = int (length (Servers admInfo)),
                           NoOfDrives = noOfDrives,
                           TotalDriveSpace = totalSpace,
                           UsedDriveSpace = usedSpace,
                           NoOfBuckets = Buckets.Count (Buckets admInfo),
                           NoOfObjects = Objects.Count (Objects admInfo)\<rparr>\<rparr>)))"

section \<open>The cached admin-client factory (newAdminFactory)\<close>

text \<open>
  The fields of \<open>Config\<close> that the factory reads, the parsed URL, the transports the
  factory builds, and the client object that \<open>madmin.New\<close> returns and the factory
  configures.
\<close>

record Config =
  HostURL :: string
  AccessKey :: string
  SecretKey :: string
  Insecure :: bool
  Debug :: bool
  AppName :: string
  AppVersion :: string

record URL =
  Scheme :: string
  Host :: string

datatype RoundTripper =
    DefaultTransport
  | Transport bool
  | TraceTransport RoundTripper

record AdminClient =
  endpointHost :: string
  accessKeyID :: string
  secretAccessKey :: string
  secure :: bool
  customTransport :: "RoundTripper option"
  appInfo :: "(string \<times> string) option"

text \<open>
  The libraries and the repository code outside these files that the admin side calls:
  \<open>url.Parse\<close>, \<open>madmin.New\<close>, alias expansion, and the administered cluster's answers
  to \<open>HelpConfigKV\<close>, \<open>GetConfigKV\<close> and \<open>ParseSubSysTarget\<close>. A client is named by
  its address in the store.
\<close>

record HelpKV =
  Key :: string

record Help =
  KeysHelp :: "HelpKV list"

record KV =
  Key :: string
  Value :: string

record Target =
  KVS :: "KV list"

record aliasConfigV10 =
  APIKey :: string
  License :: string

record configV10 =
  Aliases :: "string \<rightharpoonup> aliasConfigV10"

record adminEnv =
  urlParse :: "string \<Rightarrow> error + URL"
  madminNew :: "string \<Rightarrow> string \<Rightarrow> string \<Rightarrow> bool \<Rightarrow> error + AdminClient"
  expandAlias :: "string \<Rightarrow> error + (string \<times> string \<times> aliasConfigV10 option)"
  urlRgxMatch :: "string \<Rightarrow> bool"
  errInvalidAliasedURL :: "string \<Rightarrow> error"
  buildConfig :: "string \<Rightarrow> string \<Rightarrow> Config"
  HelpConfigKV :: "nat \<Rightarrow> string \<Rightarrow> error + Help"
  GetConfigKV :: "nat \<Rightarrow> string \<Rightarrow> error + string"
  ParseSubSysTarget :: "string \<Rightarrow> Help \<Rightarrow> error + Target"
  loadMcConfig :: "error + configV10"

text \<open>\<open>hash/fnv\<close>'s 32-bit FNV-1a over the bytes of a string.\<close>

definition fnv32a :: "string \<Rightarrow> u32" where
  "fnv32a s = fold (\<lambda>c h. (h XOR of_char c) * 16777619) s 2166136261"

text \<open>
  The state the closure holds: \<open>clientCache\<close>, a map from the hash to a client
  pointer, and the store of client objects with its next free address.
  \<open>newAdminFactory\<close> makes the empty cache; \<open>s3AdminNew\<close> is the function it returns.
  The mutex serialises the calls, so a call is one step on this state.
\<close>

record factory =
  clientCache :: "u32 \<rightharpoonup> nat"
  objects :: "nat \<rightharpoonup> AdminClient"
  allocated :: nat

definition newAdminFactory :: factory where
  "newAdminFactory = \<lparr>clientCache = Map.empty, objects = Map.empty, allocated = 0\<rparr>"

definition confSumOf :: "URL \<Rightarrow> Config \<Rightarrow> u32" where
  "confSumOf targetURL config = fnv32a (Host targetURL @ AccessKey config @ SecretKey config)"

definition s3AdminNew ::
  "adminEnv \<Rightarrow> Config \<Rightarrow> factory \<Rightarrow> (nat option \<times> error option) outcome \<times> factory" where
  "s3AdminNew env config st =
     (case urlParse env (HostURL config) of
        Inl _ \<Rightarrow> (Panics ''invalid memory address or nil pointer dereference'', st)
      | Inr targetURL \<Rightarrow>
          (let useTLS = (Scheme targetURL \<noteq> ''http'');
               hostName = Host targetURL;
               confSum = confSumOf targetURL config
           in case clientCache st confSum of
                Some api \<Rightarrow> (Returns (Some api, None), st)
              | None \<Rightarrow>
                  (case madminNew env hostName (AccessKey config) (SecretKey config) useTLS of
                     Inl e \<Rightarrow> (Returns (None, Some e), st)
                   | Inr client \<Rightarrow>
                       (let transport = (if useTLS then Transport (Insecure config)
                                         else DefaultTransport);
                            transport = (if Debug config then TraceTransport transport
                                         else transport);
                            client = client\<lparr>customTransport := Some transport,
                                            appInfo := Some (AppName config, AppVersion config)\<rparr>;
                            api = allocated st
                        in (Returns (Some api, None),
                            st\<lparr>clientCache := (clientCache st)(confSum \<mapsto> api),
                               objects := (objects st)(api \<mapsto> client),
                               allocated := Suc api\<rparr>)))))"

definition newAdminClientFromAlias ::
  "adminEnv \<Rightarrow> string \<Rightarrow> string \<Rightarrow> factory \<Rightarrow> (nat option \<times> error option) outcome \<times> factory" where
  "newAdminClientFromAlias env alias urlStr st =
     (let s3Config = buildConfig env alias urlStr
      in s3AdminNew env s3Config st)"

definition newAdminClient ::
  "adminEnv \<Rightarrow> string \<Rightarrow> factory \<Rightarrow> (nat option \<times> error option) outcome \<times> factory" where
  "newAdminClient env aliasedURL st =
     (case expandAlias env aliasedURL of
        Inl err \<Rightarrow> (Returns (None, Some err), st)
      | Inr (alias, urlStrFull, hostCfg) \<Rightarrow>
          if hostCfg = None \<and> urlRgxMatch env aliasedURL
          then (Returns (None, Some (errInvalidAliasedURL env aliasedURL)), st)
          else newAdminClientFromAlias env alias urlStrFull st)"

text \<open>The state of the closure after a sequence of calls, whatever they returned.\<close>

fun s3AdminNew_calls :: "adminEnv \<Rightarrow> Config list \<Rightarrow> factory \<Rightarrow> factory" where
  "s3AdminNew_calls env [] st = st"
| "s3AdminNew_calls env (config # configs) st =
     s3AdminNew_calls env configs (snd (s3AdminNew env config st))"

text \<open>
  What every state of the closure satisfies: a cached pointer has been allocated, and
  no pointer is cached under two hashes.
\<close>

definition cacheOK :: "factory \<Rightarrow> bool" where
  "cacheOK st =
     ((\<forall>h a. clientCache st h = Some a \<longrightarrow> a < allocated st)
      \<and> (\<forall>h h' a. clientCache st h = Some a \<and> clientCache st h' = Some a \<longrightarrow> h = h'))"

section \<open>Credential resolution (cmd/subnet-utils.go)\<close>

text \<open>The loop of \<open>minioConfigSupportsSubnet\<close> over \<open>help.KeysHelp\<close>.\<close>

fun minioConfigSupportsSubnet_loop :: "HelpKV list \<Rightarrow> bool" where
  "minioConfigSupportsSubnet_loop [] = False"
| "minioConfigSupportsSubnet_loop (h # hs) =
     (if HelpKV.Key h = ''subnet'' then True else minioConfigSupportsSubnet_loop hs)"

definition minioConfigSupportsSubnet :: "adminEnv \<Rightarrow> nat \<Rightarrow> bool outcome" where
  "minioConfigSupportsSubnet env client =
     (case HelpConfigKV env client '''' of
        Inl e \<Rightarrow> Exits ''Unable to get minio config keys''
      | Inr help \<Rightarrow> Returns (minioConfigSupportsSubnet_loop (KeysHelp help)))"

text \<open>
  The loop of \<open>getSubnetKeyFromMinIOConfig\<close> over \<open>tgt.KVS\<close>; \<open>None\<close> when it ends
  without returning.
\<close>

fun getSubnetKeyFromMinIOConfig_loop :: "KV list \<Rightarrow> string \<Rightarrow> (bool \<times> string) option" where
  "getSubnetKeyFromMinIOConfig_loop [] key = None"
| "getSubnetKeyFromMinIOConfig_loop (kv # kvs) key =
     (if KV.Key kv = key then Some (True, Value kv)
      else getSubnetKeyFromMinIOConfig_loop kvs key)"

definition getSubnetKeyFromMinIOConfig ::
  "adminEnv \<Rightarrow> string \<Rightarrow> string \<Rightarrow> factory \<Rightarrow> (bool \<times> string) outcome \<times> factory" where
  "getSubnetKeyFromMinIOConfig env alias key st =
     (case newAdminClient env alias st of
        (Panics p, st') \<Rightarrow> (Panics p, st')
      | (Exits x, st') \<Rightarrow> (Exits x, st')
      | (Returns (_, Some err), st') \<Rightarrow> (Exits ''Unable to initialize admin connection.'', st')
      | (Returns (None, None), st') \<Rightarrow>
          (Panics ''invalid memory address or nil pointer dereference'', st')
      | (Returns (Some client, None), st') \<Rightarrow>
          (case minioConfigSupportsSubnet env client of
             Panics p \<Rightarrow> (Panics p, st')
           | Exits x \<Rightarrow> (Exits x, st')
           | Returns False \<Rightarrow> (Returns (False, ''''), st')
           | Returns True \<Rightarrow>
               (case HelpConfigKV env client ''subnet'' of
                  Inl pe \<Rightarrow> (Exits ''Unable to get config keys for SUBNET'', st')
                | Inr sh \<Rightarrow>
               (case GetConfigKV env client ''subnet'' of
                  Inl e \<Rightarrow> (Exits ''Unable to get server SUBNET config'', st')
                | Inr buf \<Rightarrow>
               (case ParseSubSysTarget env buf sh of
                  Inl e \<Rightarrow> (Exits ''Unable to parse sub-system target subnet'', st')
                | Inr tgt \<Rightarrow>
               (case getSubnetKeyFromMinIOConfig_loop (KVS tgt) key of
                  Some r \<Rightarrow> (Returns r, st')
                | None \<Rightarrow> (Returns (False, ''''), st')))))))"

definition mcConfig :: "adminEnv \<Rightarrow> configV10 outcome" where
  "mcConfig env =
     (case loadMcConfig env of
        Inl err \<Rightarrow> Exits ''Unable to access configuration file.''
      | Inr config \<Rightarrow> Returns config)"

text \<open>\<open>Aliases[alias]\<close>: a Go map read gives the zero value for a missing key.\<close>

definition aliasOf :: "configV10 \<Rightarrow> string \<Rightarrow> aliasConfigV10" where
  "aliasOf config alias =
     (case Aliases config alias of
        Some a \<Rightarrow> a
      | None \<Rightarrow> \<lparr>APIKey = '''', License = ''''\<rparr>)"

definition getSubnetAPIKeyFromConfig ::
  "adminEnv \<Rightarrow> string \<Rightarrow> factory \<Rightarrow> string outcome \<times> factory" where
  "getSubnetAPIKeyFromConfig env alias st =
     (case getSubnetKeyFromMinIOConfig env alias ''api_key'' st of
        (Panics p, st') \<Rightarrow> (Panics p, st')
      | (Exits x, st') \<Rightarrow> (Exits x, st')
      | (Returns (supported, apiKey), st') \<Rightarrow>
          if supported then (Returns apiKey, st')
          else (case mcConfig env of
                  Panics p \<Rightarrow> (Panics p, st')
                | Exits x \<Rightarrow> (Exits x, st')
                | Returns config \<Rightarrow> (Returns (APIKey (aliasOf config alias)), st')))"

definition getSubnetLicenseFromConfig ::
  "adminEnv \<Rightarrow> string \<Rightarrow> factory \<Rightarrow> string outcome \<times> factory" where
  "getSubnetLicenseFromConfig env alias st =
     (case getSubnetKeyFromMinIOConfig env alias ''license'' st of
        (Panics p, st') \<Rightarrow> (Panics p, st')
      | (Exits x, st') \<Rightarrow> (Exits x, st')
      | (Returns (supported, lic), st') \<Rightarrow>
          if supported then (Returns lic, st')
          else (case mcConfig env of
                  Panics p \<Rightarrow> (Panics p, st')
                | Exits x \<Rightarrow> (Exits x, st')
                | Returns config \<Rightarrow> (Returns (License (aliasOf config alias)), st')))"

section \<open>Requests to the registry (cmd/subnet-utils.go)\<close>

text \<open>
  An HTTP request as the code builds it, the response as the code reads it (the
  body's bytes and, when the stream breaks before its end, the read error), and the
  payloads the code marshals.
\<close>

record request =
  Method :: string
  ReqURL :: string
  Header :: "(string \<times> string) list"
  ReqBody :: "string option"

record response =
  StatusCode :: int
  RespBody :: string
  ReadErr :: "error option"

record SubnetMFAReq =
  Username :: string
  OTP :: string
  Token :: string

datatype payload =
    MapPayload "(string \<times> string) list"
  | MFAPayload SubnetMFAReq

text \<open>
  The libraries and the network behind the registry calls. \<open>'r\<close> is gjson's
  \<open>Result\<close>; \<open>httpClientDo\<close> answers a request given the requests sent before it.
\<close>

record 'r subnetEnv =
  globalDevMode :: bool
  TrimSpace :: "string \<Rightarrow> string"
  jsonMarshal :: "payload \<Rightarrow> error + string"
  NewRequestErr :: "string \<Rightarrow> string \<Rightarrow> error option"
  CanonicalMIMEHeaderKey :: "string \<Rightarrow> string"
  httpClientDo :: "request list \<Rightarrow> request \<Rightarrow> error + response"
  gjsonGet :: "string \<Rightarrow> string \<Rightarrow> 'r"
  gjsonParse :: "string \<Rightarrow> 'r"
  ResultGet :: "'r \<Rightarrow> string \<Rightarrow> 'r"
  ResultBool :: "'r \<Rightarrow> bool"
  ResultString :: "'r \<Rightarrow> string"
  ResultExists :: "'r \<Rightarrow> bool"
  ResultArray :: "'r \<Rightarrow> 'r list"

text \<open>
  The terminal and the network as the process sees them: what each read of standard
  input returns, in order; what was printed; the requests sent.
\<close>

record world =
  stdin :: "string list"
  stdout :: "string list"
  sent :: "request list"

definition Print :: "string \<Rightarrow> world \<Rightarrow> world" where
  "Print s w = w\<lparr>stdout := stdout w @ [s]\<rparr>"

text \<open>\<open>reader.ReadString\<close> and \<open>terminal.ReadPassword\<close>, their errors dropped as the
  code drops them: at the end of the input they give the empty string.\<close>

definition ReadString :: "world \<Rightarrow> string \<times> world" where
  "ReadString w = (case stdin w of [] \<Rightarrow> ('''', w) | l # ls \<Rightarrow> (l, w\<lparr>stdin := ls\<rparr>))"

definition ReadPassword :: "world \<Rightarrow> string \<times> world" where
  "ReadPassword w = (case stdin w of [] \<Rightarrow> ('''', w) | l # ls \<Rightarrow> (l, w\<lparr>stdin := ls\<rparr>))"

definition subnetRespBodyLimit :: nat where
  "subnetRespBodyLimit = 2 ^ 20"

definition minioSubscriptionURL :: string where
  "minioSubscriptionURL = ''https://min.io/subscription''"

definition subnetBaseURL :: "'r subnetEnv \<Rightarrow> string" where
  "subnetBaseURL env =
     (if globalDevMode env then ''http://localhost:9000'' else ''https://subnet.min.io'')"

definition subnetLoginURL :: "'r subnetEnv \<Rightarrow> string" where
  "subnetLoginURL env = subnetBaseURL env @ ''/api/auth/login''"

definition subnetOrgsURL :: "'r subnetEnv \<Rightarrow> string" where
  "subnetOrgsURL env = subnetBaseURL env @ ''/api/auth/organizations''"

definition subnetMFAURL :: "'r subnetEnv \<Rightarrow> string" where
  "subnetMFAURL env = subnetBaseURL env @ ''/api/auth/mfa-login''"

definition subnetAuthHeaders :: "string \<Rightarrow> (string \<times> string) list" where
  "subnetAuthHeaders authToken = [(''Authorization'', ''Bearer '' @ authToken)]"

text \<open>Decimal digits of a number, for \<open>%d\<close> and \<open>Println\<close>.\<close>

definition digitChar :: "nat \<Rightarrow> char" where
  "digitChar d = ''0123456789'' ! d"

fun showNat :: "nat \<Rightarrow> string" where
  "showNat n =
     (if n < 10 then [digitChar n]
      else showNat (n div 10) @ [digitChar (n mod 10)])"

definition showInt :: "int \<Rightarrow> string" where
  "showInt i = (if i < 0 then CHR ''-'' # showNat (nat (- i)) else showNat (nat i))"

text \<open>\<open>http.Header\<close>'s \<open>Add\<close> and \<open>Get\<close>, on the list of its entries.\<close>

definition HeaderAdd :: "'r subnetEnv \<Rightarrow> string \<Rightarrow> string \<Rightarrow> request \<Rightarrow> request" where
  "HeaderAdd env k v r = r\<lparr>Header := Header r @ [(CanonicalMIMEHeaderKey env k, v)]\<rparr>"

definition HeaderGet :: "'r subnetEnv \<Rightarrow> string \<Rightarrow> request \<Rightarrow> string" where
  "HeaderGet env k r =
     (case map_of (Header r) (CanonicalMIMEHeaderKey env k) of None \<Rightarrow> '''' | Some v \<Rightarrow> v)"

text \<open>\<open>ioutil.ReadAll\<close> of the body through \<open>io.LimitReader\<close>.\<close>

definition ReadAllLimited :: "response \<Rightarrow> error + string" where
  "ReadAllLimited resp =
     (if length (RespBody resp) \<ge> subnetRespBodyLimit
      then Inr (take subnetRespBodyLimit (RespBody resp))
      else (case ReadErr resp of None \<Rightarrow> Inr (RespBody resp) | Some e \<Rightarrow> Inl e))"

text \<open>\<open>httpDo\<close>: the request goes out and is answered (the proxy setting changes the
  route, not the exchange).\<close>

definition httpDo :: "'r subnetEnv \<Rightarrow> request \<Rightarrow> world \<Rightarrow> (error + response) \<times> world" where
  "httpDo env req w = (httpClientDo env (sent w) req, w\<lparr>sent := sent w @ [req]\<rparr>)"

definition subnetReqDo ::
  "'r subnetEnv \<Rightarrow> request \<Rightarrow> (string \<times> string) list option \<Rightarrow> world
     \<Rightarrow> (string \<times> error option) \<times> world" where
  "subnetReqDo env r headers w =
     (let r = fold (\<lambda>(k, v) r. HeaderAdd env k v r) (case headers of None \<Rightarrow> [] | Some h \<Rightarrow> h) r;
          ct = HeaderGet env ''Content-Type'' r;
          r = (if length ct = 0 then HeaderAdd env ''Content-Type'' ''application/json'' r else r)
      in case httpDo env r w of
           (Inl e, w') \<Rightarrow> (('''', Some e), w')
         | (Inr resp, w') \<Rightarrow>
             (case ReadAllLimited resp of
                Inl e \<Rightarrow> (('''', Some e), w')
              | Inr respStr \<Rightarrow>
                  if StatusCode resp = 200 then ((respStr, None), w')
                  else ((respStr,
                         Some (errorString (''Request failed with code '' @ showInt (StatusCode resp)
                                            @ '' and error: '' @ respStr))), w')))"

text \<open>\<open>http.NewRequest\<close>: it refuses a method or a URL it cannot parse
  (\<open>NewRequestErr\<close>), and otherwise gives the request with no header yet.\<close>

definition NewRequest ::
  "'r subnetEnv \<Rightarrow> string \<Rightarrow> string \<Rightarrow> string option \<Rightarrow> error + request" where
  "NewRequest env method url body =
     (case NewRequestErr env method url of
        Some e \<Rightarrow> Inl e
      | None \<Rightarrow> Inr \<lparr>Method = method, ReqURL = url, Header = [], ReqBody = body\<rparr>)"

definition subnetGetReq ::
  "'r subnetEnv \<Rightarrow> string \<Rightarrow> (string \<times> string) list option \<Rightarrow> world
     \<Rightarrow> (string \<times> error option) \<times> world" where
  "subnetGetReq env reqURL headers w =
     (case NewRequest env ''GET'' reqURL None of
        Inl e \<Rightarrow> (('''', Some e), w)
      | Inr r \<Rightarrow> subnetReqDo env r headers w)"

definition subnetPostReq ::
  "'r subnetEnv \<Rightarrow> string \<Rightarrow> payload \<Rightarrow> (string \<times> string) list option \<Rightarrow> world
     \<Rightarrow> (string \<times> error option) \<times> world" where
  "subnetPostReq env reqURL pl headers w =
     (case jsonMarshal env pl of
        Inl e \<Rightarrow> (('''', Some e), w)
      | Inr body \<Rightarrow>
          (case NewRequest env ''POST'' reqURL (Some body) of
             Inl e \<Rightarrow> (('''', Some e), w)
           | Inr r \<Rightarrow> subnetReqDo env r headers w))"

section \<open>The interactive login flow (subnetLogin)\<close>

text \<open>
  \<open>subnetLogin\<close> in its three stretches: up to the login request (an early return is
  \<open>Inl\<close>, otherwise the user name and the response go on), the second-factor block
  (an early return, or the response that is current after it), and the token.
\<close>

definition subnetLogin_login ::
  "'r subnetEnv \<Rightarrow> world \<Rightarrow> ((string \<times> error option) + (string \<times> string)) \<times> world" where
  "subnetLogin_login env w =
     (case ReadString (Print ''SUBNET username: '' w) of
        (username, w) \<Rightarrow>
     (let username = TrimSpace env username
      in if length username = 0
         then (Inl ('''', Some (errorString
                (''Username cannot be empty. If you don't have one, please create one from here: ''
                 @ minioSubscriptionURL))), w)
         else
           (case ReadPassword (Print ''Password: '' w) of
              (bytepw, w) \<Rightarrow>
           (let w = Print [CHR 0x0A] w;
                loginReq = MapPayload [(''username'', username), (''password'', bytepw)]
            in case subnetPostReq env (subnetLoginURL env) loginReq None w of
                 ((respStr, e), w) \<Rightarrow>
                   if e \<noteq> None then (Inl ('''', e), w)
                   else (Inr (username, respStr), w)))))"

definition subnetLogin_mfa ::
  "'r subnetEnv \<Rightarrow> string \<Rightarrow> string \<Rightarrow> world \<Rightarrow> ((string \<times> error option) + string) \<times> world" where
  "subnetLogin_mfa env username respStr w =
     (let mfaRequired = ResultBool env (gjsonGet env respStr ''mfa_required'')
      in if mfaRequired
         then
           (let mfaToken = ResultString env (gjsonGet env respStr ''mfa_token'')
            in case ReadPassword (Print ''OTP received in email: '' w) of
                 (byteotp, w) \<Rightarrow>
               (let w = Print [CHR 0x0A] w;
                    mfaLoginReq = \<lparr>Username = username, OTP = byteotp, Token = mfaToken\<rparr>
                in case subnetPostReq env (subnetMFAURL env) (MFAPayload mfaLoginReq) None w of
                     ((respStr, e), w) \<Rightarrow>
                       if e \<noteq> None then (Inl ('''', e), w)
                       else (Inr respStr, w)))
         else (Inr respStr, w))"

definition subnetLogin_token :: "'r subnetEnv \<Rightarrow> string \<Rightarrow> string \<times> error option" where
  "subnetLogin_token env respStr =
     (let token = gjsonGet env respStr ''token_info.access_token''
      in if ResultExists env token then (ResultString env token, None)
         else ('''', Some (errorString ''access token not found in response'')))"

definition subnetLogin :: "'r subnetEnv \<Rightarrow> world \<Rightarrow> (string \<times> error option) \<times> world" where
  "subnetLogin env w =
     (case subnetLogin_login env w of
        (Inl ret, w) \<Rightarrow> (ret, w)
      | (Inr (username, respStr), w) \<Rightarrow>
          (case subnetLogin_mfa env username respStr w of
             (Inl ret, w) \<Rightarrow> (ret, w)
           | (Inr respStr, w) \<Rightarrow> (subnetLogin_token env respStr, w)))"

section \<open>Account selection (getSubnetAccID)\<close>

text \<open>\<open>strings.Trim\<close> with a cutset of single bytes, and \<open>strconv.Atoi\<close> (an optional
  sign, then decimal digits only, within the 64-bit range).\<close>

definition Trim :: "string \<Rightarrow> string \<Rightarrow> string" where
  "Trim s cutset =
     rev (dropWhile (\<lambda>c. c \<in> set cutset) (rev (dropWhile (\<lambda>c. c \<in> set cutset) s)))"

definition isDigit :: "char \<Rightarrow> bool" where
  "isDigit c = (48 \<le> (of_char c :: nat) \<and> (of_char c :: nat) \<le> 57)"

definition digitsValue :: "string \<Rightarrow> nat" where
  "digitsValue ds = fold (\<lambda>c n. 10 * n + (of_char c - 48)) ds 0"

definition Atoi :: "string \<Rightarrow> int \<times> error option" where
  "Atoi s =
     (let (neg, ds) =
            (case s of
               [] \<Rightarrow> (False, [])
             | c # cs \<Rightarrow> if c = CHR ''-'' then (True, cs)
                         else if c = CHR ''+'' then (False, cs)
                         else (False, s))
      in if ds = [] \<or> \<not> list_all isDigit ds
         then (0, Some (NumError ''Atoi'' s ''invalid syntax''))
         else
           (let v = (if neg then - int (digitsValue ds) else int (digitsValue ds))
            in if v < - (2 ^ 63) then (- (2 ^ 63), Some (NumError ''Atoi'' s ''value out of range''))
               else if v > 2 ^ 63 - 1 then (2 ^ 63 - 1, Some (NumError ''Atoi'' s ''value out of range''))
               else (v, None)))"

text \<open>\<open>xs[i]\<close> on a slice: a panic when the index is out of range.\<close>

definition index :: "'a list \<Rightarrow> int \<Rightarrow> 'a outcome" where
  "index xs i =
     (if 0 \<le> i \<and> i < int (length xs) then Returns (xs ! nat i)
      else Panics ''runtime error: index out of range'')"

text \<open>The loop that prints the organizations, \<open>idx\<close> counting from 0.\<close>

fun getSubnetAccID_print :: "'r subnetEnv \<Rightarrow> 'r list \<Rightarrow> int \<Rightarrow> world \<Rightarrow> world" where
  "getSubnetAccID_print env [] idx w = w"
| "getSubnetAccID_print env (org # orgs) idx w =
     getSubnetAccID_print env orgs (idx + 1)
       (Print (''   '' @ showInt (idx + 1) @ '' : ''
               @ ResultString env (ResultGet env org ''company'') @ [CHR 0x0A]) w)"

text \<open>The block under \<open>len(orgs) > 1\<close>: an early return (\<open>Inl\<close>) or the chosen \<open>idx\<close>.\<close>

definition getSubnetAccID_choose ::
  "'r subnetEnv \<Rightarrow> 'r list \<Rightarrow> world \<Rightarrow> ((string \<times> error option) + int) \<times> world" where
  "getSubnetAccID_choose env orgs w =
     (let w = Print (''You are part of multiple organizations on SUBNET:'' @ [CHR 0x0A]) w;
          w = getSubnetAccID_print env orgs 0 w;
          w = Print ''Please choose the organization for this cluster: '' w
      in case ReadString w of
           (accIdx, w) \<Rightarrow>
         (let accIdx = Trim accIdx [CHR 0x0A]
          in case Atoi accIdx of
               (idx, e) \<Rightarrow>
                 if e \<noteq> None then (Inl ('''', e), w)
                 else if idx > int (length orgs)
                 then (Inl ('''', Some (errorString
                         ''Invalid choice for organization. Please run the command again.'')), w)
                 else (Inr idx, w)))"

definition getSubnetAccID ::
  "'r subnetEnv \<Rightarrow> (string \<times> string) list option \<Rightarrow> world
     \<Rightarrow> (string \<times> error option) outcome \<times> world" where
  "getSubnetAccID env headers w =
     (case subnetGetReq env (subnetOrgsURL env) headers w of
        ((respStr, e), w) \<Rightarrow>
          if e \<noteq> None then (Returns ('''', e), w)
          else
            (let data = gjsonParse env respStr;
                 orgs = ResultArray env data
             in case (if length orgs > 1 then getSubnetAccID_choose env orgs w
                      else (Inr 1, w)) of
                  (Inl ret, w) \<Rightarrow> (Returns ret, w)
                | (Inr idx, w) \<Rightarrow>
                    (case index orgs (idx - 1) of
                       Panics p \<Rightarrow> (Panics p, w)
                     | Exits x \<Rightarrow> (Exits x, w)
                     | Returns org \<Rightarrow>
                         (Returns (ResultString env (ResultGet env org ''accountId''), None), w))))"

section \<open>Authorization of a registry URL (subnetURLWithAuth)\<close>

definition subnetURLWithAuth ::
  "'r subnetEnv \<Rightarrow> string \<Rightarrow> string \<Rightarrow> string \<Rightarrow> world
     \<Rightarrow> (string \<times> (string \<times> string) list option \<times> error option) outcome \<times> world" where
  "subnetURLWithAuth env reqURL apiKey license w =
     (let headers = [] in
      if length apiKey > 0
      then (Returns (reqURL @ ''?api_key='' @ apiKey, Some headers, None), w)
      else if length license > 0
      then (Returns (reqURL @ ''?license='' @ license, Some headers, None), w)
      else
        (case subnetLogin env w of
           ((token, e), w) \<Rightarrow>
             if e \<noteq> None then (Returns ('''', None, e), w)
             else
               (let headers = subnetAuthHeaders token
                in case getSubnetAccID env (Some headers) w of
                     (Panics p, w) \<Rightarrow> (Panics p, w)
                   | (Exits x, w) \<Rightarrow> (Exits x, w)
                   | (Returns (accID, err), w) \<Rightarrow>
                       if err \<noteq> None then (Returns ('''', Some headers, e), w)
                       else (Returns (reqURL @ ''?aid='' @ accID, Some headers, None), w))))"

(*DEFS5*)

section \<open>Concrete inputs\<close>

text \<open>An admin status with the given servers, each server with a pool number and its disks.\<close>

definition demoServer :: "int \<Rightarrow> Disk list \<Rightarrow> ServerProperties" where
  "demoServer pool disks = \<lparr>PoolNumber = pool, Version = ''2021-10-23T03:28:24Z'', Disks = disks\<rparr>"

definition demoInfo :: "ServerProperties list \<Rightarrow> InfoMessage" where
  "demoInfo srvs =
     \<lparr>DeploymentID = ''d1'', Usage = \<lparr>Size = 7\<rparr>, Buckets = \<lparr>Buckets.Count = 2\<rparr>,
      Objects = \<lparr>Objects.Count = 5\<rparr>, Servers = srvs\<rparr>"

text \<open>A configuration with the given endpoint and keys; the libraries and a cluster
  for it: two endpoints that parse, a client constructor that succeeds, one alias, a
  cluster whose configuration has the \<open>subnet\<close> subsystem with an API key.\<close>

definition demoConfig :: "string \<Rightarrow> string \<Rightarrow> string \<Rightarrow> Config" where
  "demoConfig url access secret =
     \<lparr>HostURL = url, AccessKey = access, SecretKey = secret, Insecure = False,
      Debug = False, AppName = ''mc'', AppVersion = ''dev''\<rparr>"

definition demoAdminEnv :: adminEnv where
  "demoAdminEnv =
     \<lparr>urlParse = (\<lambda>s. if s = ''https://minio.example''
                        then Inr \<lparr>Scheme = ''https'', Host = ''minio.example''\<rparr>
                        else if s = ''http://localhost:9000''
                        then Inr \<lparr>Scheme = ''http'', Host = ''localhost:9000''\<rparr>
                        else Inl (errorString ''parse'')),
      madminNew = (\<lambda>host access secret useTLS.
                     Inr \<lparr>endpointHost = host, accessKeyID = access, secretAccessKey = secret,
                          secure = useTLS, customTransport = None, appInfo = None\<rparr>),
      expandAlias = (\<lambda>a. if a = ''myminio'' then Inr (''myminio'', ''https://minio.example'', Some \<lparr>APIKey = ''local-key'', License = ''local-lic''\<rparr>)
                          else Inl (errorString ''no such alias'')),
      urlRgxMatch = (\<lambda>a. False),
      errInvalidAliasedURL = (\<lambda>a. errorString ''invalid aliased URL''),
      buildConfig = (\<lambda>alias url. demoConfig url ''admin'' ''secret''),
      HelpConfigKV = (\<lambda>client subSys. Inr \<lparr>KeysHelp = [\<lparr>HelpKV.Key = ''region''\<rparr>, \<lparr>HelpKV.Key = ''subnet''\<rparr>]\<rparr>),
      GetConfigKV = (\<lambda>client subSys. Inr ''subnet license= api_key=server-key''),
      ParseSubSysTarget = (\<lambda>buf help. Inr \<lparr>KVS = [\<lparr>KV.Key = ''license'', Value = ''''\<rparr>, \<lparr>KV.Key = ''api_key'', Value = ''server-key''\<rparr>]\<rparr>),
      loadMcConfig = Inr \<lparr>Aliases = [''myminio'' \<mapsto> \<lparr>APIKey = ''local-key'', License = ''local-lic''\<rparr>]\<rparr>\<rparr>"

text \<open>The same cluster with an empty \<open>subnet\<close> configuration, and one without the
  \<open>subnet\<close> subsystem.\<close>

definition demoAdminEnv_nokeys :: adminEnv where
  "demoAdminEnv_nokeys = demoAdminEnv\<lparr>ParseSubSysTarget := (\<lambda>buf sh. Inr \<lparr>KVS = []\<rparr>)\<rparr>"

definition demoAdminEnv_nosubnet :: adminEnv where
  "demoAdminEnv_nosubnet =
     demoAdminEnv\<lparr>HelpConfigKV := (\<lambda>client subSys. Inr \<lparr>KeysHelp = [\<lparr>HelpKV.Key = ''region''\<rparr>]\<rparr>)\<rparr>"

text \<open>
  A registry and a terminal to run the flows on. The JSON documents the registry
  answers with are read by a table (\<open>demoParse\<close>) into their values, with gjson's
  accessors on them; the login endpoint answers with the given body, the organizations
  endpoint with the given answer, the second-factor endpoint with a token.
\<close>

datatype json = JNull | JBool bool | JString string | JArray "json list"
  | JObject "(string \<times> json) list"

definition demoOrg :: "string \<Rightarrow> string \<Rightarrow> json" where
  "demoOrg company accountId =
     JObject [(''company'', JString company), (''accountId'', JString accountId)]"

definition demoParse :: "string \<Rightarrow> json" where
  "demoParse s =
     (if s = ''{\"mfa_required\":false,\"token_info\":{\"access_token\":\"tok-1\"}}''
      then JObject [(''mfa_required'', JBool False),
                    (''token_info'', JObject [(''access_token'', JString ''tok-1'')])]
      else if s = ''{\"mfa_required\":true,\"mfa_token\":\"mfa-9\"}''
      then JObject [(''mfa_required'', JBool True), (''mfa_token'', JString ''mfa-9'')]
      else if s = ''{\"token_info\":{\"access_token\":\"tok-2\"}}''
      then JObject [(''token_info'', JObject [(''access_token'', JString ''tok-2'')])]
      else if s = ''[]'' then JArray []
      else if s = ''[{\"company\":\"Acme\",\"accountId\":\"17\"}]''
      then JArray [demoOrg ''Acme'' ''17'']
      else if s = ''[{\"company\":\"Acme\",\"accountId\":\"17\"},{\"company\":\"Bolt\",\"accountId\":\"23\"},{\"company\":\"Core\",\"accountId\":\"42\"}]''
      then JArray [demoOrg ''Acme'' ''17'', demoOrg ''Bolt'' ''23'', demoOrg ''Core'' ''42'']
      else JNull)"

fun demoSplit :: "string \<Rightarrow> string \<Rightarrow> string list" where
  "demoSplit [] acc = [rev acc]"
| "demoSplit (c # cs) acc =
     (if c = CHR ''.'' then rev acc # demoSplit cs [] else demoSplit cs (c # acc))"

fun demoLookup :: "json \<Rightarrow> string list \<Rightarrow> json" where
  "demoLookup j [] = j"
| "demoLookup (JObject kvs) (k # ks) =
     (case map_of kvs k of None \<Rightarrow> JNull | Some j \<Rightarrow> demoLookup j ks)"
| "demoLookup j (k # ks) = JNull"

definition demoBool :: "json \<Rightarrow> bool" where
  "demoBool j = (case j of JBool b \<Rightarrow> b | _ \<Rightarrow> False)"

definition demoString :: "json \<Rightarrow> string" where
  "demoString j =
     (case j of JString s \<Rightarrow> s | JBool b \<Rightarrow> (if b then ''true'' else ''false'') | _ \<Rightarrow> '''')"

definition demoArray :: "json \<Rightarrow> json list" where
  "demoArray j = (case j of JArray js \<Rightarrow> js | JNull \<Rightarrow> [] | _ \<Rightarrow> [j])"

fun demoFields :: "(string \<times> string) list \<Rightarrow> string" where
  "demoFields [] = ''''"
| "demoFields [(k, v)] = ''\"'' @ k @ ''\":\"'' @ v @ ''\"''"
| "demoFields ((k, v) # kvs) = ''\"'' @ k @ ''\":\"'' @ v @ ''\",'' @ demoFields kvs"

definition demoMarshal :: "payload \<Rightarrow> string" where
  "demoMarshal pl =
     (case pl of
        MapPayload kvs \<Rightarrow> ''{'' @ demoFields kvs @ ''}''
      | MFAPayload r \<Rightarrow>
          ''{'' @ demoFields [(''username'', Username r), (''otp'', OTP r), (''token'', Token r)]
          @ ''}'')"

definition demoOK :: "string \<Rightarrow> error + response" where
  "demoOK body = Inr \<lparr>StatusCode = 200, RespBody = body, ReadErr = None\<rparr>"

definition demoSubnetEnv :: "string \<Rightarrow> error + response \<Rightarrow> json subnetEnv" where
  "demoSubnetEnv loginBody orgsAnswer =
     \<lparr>globalDevMode = False,
      TrimSpace = (\<lambda>s. Trim s [CHR '' '', CHR 0x0A]),
      jsonMarshal = (\<lambda>pl. Inr (demoMarshal pl)),
      NewRequestErr = (\<lambda>m u. None),
      CanonicalMIMEHeaderKey = (\<lambda>k. k),
      httpClientDo = (\<lambda>before r.
         if ReqURL r = ''https://subnet.min.io/api/auth/login'' then demoOK loginBody
         else if ReqURL r = ''https://subnet.min.io/api/auth/mfa-login''
         then demoOK ''{\"token_info\":{\"access_token\":\"tok-2\"}}''
         else if ReqURL r = ''https://subnet.min.io/api/auth/organizations'' then orgsAnswer
         else Inl (errorString ''no such host'')),
      gjsonGet = (\<lambda>s path. demoLookup (demoParse s) (demoSplit path [])),
      gjsonParse = demoParse,
      ResultGet = (\<lambda>j path. demoLookup j (demoSplit path [])),
      ResultBool = demoBool,
      ResultString = demoString,
      ResultExists = (\<lambda>j. j \<noteq> JNull),
      ResultArray = demoArray\<rparr>"

definition demoWorld :: "string list \<Rightarrow> world" where
  "demoWorld input = \<lparr>stdin = input, stdout = [], sent = []\<rparr>"

text \<open>The documents the registry answers with, and the URL to authorize.\<close>

definition demoLoginPlain :: string where
  "demoLoginPlain = ''{\"mfa_required\":false,\"token_info\":{\"access_token\":\"tok-1\"}}''"

definition demoLoginMFA :: string where
  "demoLoginMFA = ''{\"mfa_required\":true,\"mfa_token\":\"mfa-9\"}''"

definition demoThreeOrgs :: string where
  "demoThreeOrgs = ''[{\"company\":\"Acme\",\"accountId\":\"17\"},{\"company\":\"Bolt\",\"accountId\":\"23\"},{\"company\":\"Core\",\"accountId\":\"42\"}]''"

definition demoOneOrg :: string where
  "demoOneOrg = ''[{\"company\":\"Acme\",\"accountId\":\"17\"}]''"

definition demoRegisterURL :: string where
  "demoRegisterURL = ''https://subnet.min.io/api/cluster/register''"

(*DEFS6*)

section \<open>Properties of the cluster-info aggregation\<close>

lemma Max_insert_max:
  fixes p x :: int
  assumes "finite S"
  shows "Max (insert (max p x) S) = Max (insert p (insert x S))"
proof (cases "S = {}")
  case True
  then show ?thesis by (simp add: max.commute)
next
  case False
  with assms show ?thesis by (simp add: max.assoc)
qed

lemma getClusterRegInfo_loop_eq:
  "getClusterRegInfo_loop srvs p d =
     (Max (insert p (PoolNumber ` set srvs)), d + int (length (concat (map Disks srvs))))"
proof (induction srvs arbitrary: p d)
  case Nil
  show ?case by simp
next
  case (Cons s rest)
  have m: "Max (insert (max p (PoolNumber s)) (PoolNumber ` set rest))
         = Max (insert p (insert (PoolNumber s) (PoolNumber ` set rest)))"
    by (rule Max_insert_max) simp
  have c: "(if p < PoolNumber s then PoolNumber s else p) = max p (PoolNumber s)"
    by (simp add: max_def)
  show ?case
    unfolding getClusterRegInfo_loop.simps c Cons.IH m by simp
qed

lemma getDriveSpaceInfo_disks_eq:
  "getDriveSpaceInfo_disks ds t u =
     (t + sum_list (map TotalSpace ds), u + sum_list (map UsedSpace ds))"
  by (induction ds arbitrary: t u) (simp_all add: add.assoc)

lemma getDriveSpaceInfo_servers_eq:
  "getDriveSpaceInfo_servers srvs t u =
     (t + sum_list (map TotalSpace (concat (map Disks srvs))),
      u + sum_list (map UsedSpace (concat (map Disks srvs))))"
  by (induction srvs arbitrary: t u) (simp_all add: getDriveSpaceInfo_disks_eq add.assoc)

text \<open>
  C8. Whenever the admin status has a server, \<open>getClusterRegInfo\<close> returns, and in
  its result the pool count is the largest pool number of any server, and at least 1;
  the drive count is the number of disks of all servers; the total and the used drive
  space are the sums (in \<open>uint64\<close>) of \<open>TotalSpace\<close> and \<open>UsedSpace\<close> over every
  disk of every server, each disk counted as often as it is listed.
\<close>

theorem getClusterRegInfo_aggregates:
  assumes "Servers admInfo \<noteq> []"
  shows "\<exists>r. getClusterRegInfo admInfo clusterName = Returns r
           \<and> NoOfServerPools (Info r) = Max (insert 1 (PoolNumber ` set (Servers admInfo)))
           \<and> NoOfDrives (Info r) = int (length (concat (map Disks (Servers admInfo))))
           \<and> TotalDriveSpace (Info r)
               = sum_list (map TotalSpace (concat (map Disks (Servers admInfo))))
           \<and> UsedDriveSpace (Info r)
               = sum_list (map UsedSpace (concat (map Disks (Servers admInfo))))"
proof -
  from assms obtain s rest where sr: "Servers admInfo = s # rest"
    by (cases "Servers admInfo") auto
  show ?thesis
    unfolding getClusterRegInfo_def getDriveSpaceInfo_def getClusterRegInfo_loop_eq
      getDriveSpaceInfo_servers_eq
    by (simp add: sr)
qed

theorem getClusterRegInfo_aggregates_witness:
  "(\<exists>r. getClusterRegInfo
          (demoInfo [demoServer 1 [\<lparr>TotalSpace = 100, UsedSpace = 40\<rparr>],
                     demoServer 1 [\<lparr>TotalSpace = 100, UsedSpace = 40\<rparr>],
                     demoServer 2 [],
                     demoServer 3 [\<lparr>TotalSpace = 50, UsedSpace = 1\<rparr>, \<lparr>TotalSpace = 50, UsedSpace = 2\<rparr>]])
          ''c'' = Returns r
        \<and> NoOfServerPools (Info r) = 3 \<and> NoOfDrives (Info r) = 4
        \<and> TotalDriveSpace (Info r) = 300 \<and> UsedDriveSpace (Info r) = 83)
   \<and> (\<exists>r. getClusterRegInfo (demoInfo [demoServer 1 []]) ''c'' = Returns r
        \<and> NoOfServerPools (Info r) = 1)"
  using getClusterRegInfo_aggregates
          [of "demoInfo [demoServer 1 [\<lparr>TotalSpace = 100, UsedSpace = 40\<rparr>],
                     demoServer 1 [\<lparr>TotalSpace = 100, UsedSpace = 40\<rparr>],
                     demoServer 2 [],
                     demoServer 3 [\<lparr>TotalSpace = 50, UsedSpace = 1\<rparr>, \<lparr>TotalSpace = 50, UsedSpace = 2\<rparr>]]" "''c''"]
        getClusterRegInfo_aggregates [of "demoInfo [demoServer 1 []]" "''c''"]
  by (auto simp add: demoInfo_def demoServer_def)

text \<open>
  C10. \<open>getClusterRegInfo\<close> reads \<open>Servers[0].Version\<close> whatever the input: with no
  server it panics with an index out of range, and with at least one it returns the
  first server's version as \<open>MinioVersion\<close>.
\<close>

theorem getClusterRegInfo_first_server:
  "(Servers admInfo = [] \<longrightarrow>
      getClusterRegInfo admInfo clusterName
        = Panics ''runtime error: index out of range [0] with length 0'')
   \<and> (\<forall>srvr rest. Servers admInfo = srvr # rest \<longrightarrow>
        (\<exists>r. getClusterRegInfo admInfo clusterName = Returns r
              \<and> MinioVersion (Info r) = Version srvr))"
  by (auto simp: getClusterRegInfo_def split: prod.splits)

theorem getClusterRegInfo_first_server_witness:
  "getClusterRegInfo (demoInfo []) ''c''
     = Panics ''runtime error: index out of range [0] with length 0''
   \<and> (\<exists>r. getClusterRegInfo (demoInfo [demoServer 1 []]) ''c'' = Returns r
          \<and> MinioVersion (Info r) = ''2021-10-23T03:28:24Z'')"
  using getClusterRegInfo_first_server [of "demoInfo []" "''c''"]
        getClusterRegInfo_first_server [of "demoInfo [demoServer 1 []]" "''c''"]
  by (auto simp add: demoInfo_def demoServer_def)

section \<open>Properties of the admin-client factory\<close>

lemma cacheOK_newAdminFactory: "cacheOK newAdminFactory"
  by (simp add: cacheOK_def newAdminFactory_def)

lemma s3AdminNew_cacheOK:
  assumes "cacheOK st"
  shows "cacheOK (snd (s3AdminNew env config st))"
  using assms
  unfolding s3AdminNew_def cacheOK_def Let_def
  by (auto split: sum.splits option.splits simp: less_Suc_eq dest: less_irrefl_nat)

lemma s3AdminNew_keeps:
  assumes "clientCache st h = Some a"
  shows "clientCache (snd (s3AdminNew env config st)) h = Some a"
  using assms
  unfolding s3AdminNew_def Let_def
  by (auto split: sum.splits option.splits)

lemma s3AdminNew_calls_cacheOK:
  "cacheOK st \<Longrightarrow> cacheOK (s3AdminNew_calls env configs st)"
  by (induction configs arbitrary: st) (simp_all add: s3AdminNew_cacheOK)

lemma s3AdminNew_calls_keeps:
  "clientCache st h = Some a \<Longrightarrow> clientCache (s3AdminNew_calls env configs st) h = Some a"
  by (induction configs arbitrary: st) (simp_all add: s3AdminNew_keeps)

lemma s3AdminNew_Returns_cached:
  assumes "urlParse env (HostURL config) = Inr u"
    and "s3AdminNew env config st = (Returns (Some a, None), st')"
  shows "clientCache st' (confSumOf u config) = Some a"
  using assms
  unfolding s3AdminNew_def Let_def
  by (auto split: sum.splits option.splits)

lemma s3AdminNew_hit:
  assumes "urlParse env (HostURL config) = Inr u"
    and "clientCache st (confSumOf u config) = Some a"
  shows "s3AdminNew env config st = (Returns (Some a, None), st)"
  using assms
  unfolding s3AdminNew_def Let_def
  by simp

text \<open>
  C1, as the code has it. The cache key is the 32-bit FNV-1a hash of host, access key
  and secret key written one after the other. After any calls, once a call for a
  configuration has returned a client, every later call (whatever calls lie between)
  for a configuration with the same hash returns that same client and leaves the
  state as it is; equal (host, access key, secret key) have the same hash. A later
  call for a configuration with another hash that returns a client returns another
  one.
\<close>

theorem s3AdminNew_same_fingerprint:
  assumes p1: "urlParse env (HostURL c1) = Inr u1"
    and p2: "urlParse env (HostURL c2) = Inr u2"
    and first: "s3AdminNew env c1 (s3AdminNew_calls env before newAdminFactory)
                  = (Returns (Some a1, None), st1)"
    and st2: "st2 = s3AdminNew_calls env between st1"
  shows "(Host u1 = Host u2 \<and> AccessKey c1 = AccessKey c2 \<and> SecretKey c1 = SecretKey c2
            \<longrightarrow> s3AdminNew env c2 st2 = (Returns (Some a1, None), st2))
       \<and> (confSumOf u1 c1 = confSumOf u2 c2
            \<longrightarrow> s3AdminNew env c2 st2 = (Returns (Some a1, None), st2))
       \<and> (confSumOf u1 c1 \<noteq> confSumOf u2 c2
            \<longrightarrow> (\<forall>a2 st3. s3AdminNew env c2 st2 = (Returns (Some a2, None), st3)
                    \<longrightarrow> a2 \<noteq> a1))"
proof -
  let ?st0 = "s3AdminNew_calls env before newAdminFactory"
  have ok0: "cacheOK ?st0"
    by (rule s3AdminNew_calls_cacheOK [OF cacheOK_newAdminFactory])
  have ok1: "cacheOK st1"
    using s3AdminNew_cacheOK [OF ok0, of env c1] first by simp
  have ok2: "cacheOK st2"
    unfolding st2 by (rule s3AdminNew_calls_cacheOK [OF ok1])
  have in1: "clientCache st1 (confSumOf u1 c1) = Some a1"
    by (rule s3AdminNew_Returns_cached [OF p1 first])
  have in2: "clientCache st2 (confSumOf u1 c1) = Some a1"
    unfolding st2 by (rule s3AdminNew_calls_keeps [OF in1])
  have same: "s3AdminNew env c2 st2 = (Returns (Some a1, None), st2)"
    if "confSumOf u1 c1 = confSumOf u2 c2"
    using s3AdminNew_hit [OF p2, of st2 a1] in2 that by simp
  have tuple: "confSumOf u1 c1 = confSumOf u2 c2"
    if "Host u1 = Host u2 \<and> AccessKey c1 = AccessKey c2 \<and> SecretKey c1 = SecretKey c2"
    using that by (simp add: confSumOf_def)
  have differ: "a2 \<noteq> a1"
    if ne: "confSumOf u1 c1 \<noteq> confSumOf u2 c2"
      and second: "s3AdminNew env c2 st2 = (Returns (Some a2, None), st3)"
    for a2 st3
  proof
    assume eq: "a2 = a1"
    have ok3: "cacheOK st3"
      using s3AdminNew_cacheOK [OF ok2, of env c2] second by simp
    have c2in: "clientCache st3 (confSumOf u2 c2) = Some a2"
      by (rule s3AdminNew_Returns_cached [OF p2 second])
    have c1in: "clientCache st3 (confSumOf u1 c1) = Some a1"
      using s3AdminNew_keeps [OF in2, of env c2] second by simp
    from ok3 c1in c2in eq have "confSumOf u1 c1 = confSumOf u2 c2"
      unfolding cacheOK_def by blast
    with ne show False by simp
  qed
  from same tuple differ show ?thesis by blast
qed

theorem s3AdminNew_same_fingerprint_witness:
  "fst (s3AdminNew demoAdminEnv (demoConfig ''https://minio.example'' ''admin1'' ''secret'')
          newAdminFactory) = Returns (Some 0, None)
   \<and> fst (s3AdminNew demoAdminEnv (demoConfig ''https://minio.example'' ''admin1'' ''secret'')
          (s3AdminNew_calls demoAdminEnv
             [demoConfig ''http://localhost:9000'' ''admin1'' ''secret'']
             (snd (s3AdminNew demoAdminEnv
                     (demoConfig ''https://minio.example'' ''admin1'' ''secret'')
                     newAdminFactory)))) = Returns (Some 0, None)
   \<and> fst (s3AdminNew demoAdminEnv (demoConfig ''http://localhost:9000'' ''admin1'' ''secret'')
          (snd (s3AdminNew demoAdminEnv
                  (demoConfig ''https://minio.example'' ''admin1'' ''secret'')
                  newAdminFactory))) = Returns (Some 1, None)
   \<and> (1::nat) \<noteq> 0"
proof -
  let ?cA = "demoConfig ''https://minio.example'' ''admin1'' ''secret''"
  let ?cB = "demoConfig ''http://localhost:9000'' ''admin1'' ''secret''"
  let ?uA = "\<lparr>Scheme = ''https'', Host = ''minio.example''\<rparr>"
  let ?uB = "\<lparr>Scheme = ''http'', Host = ''localhost:9000''\<rparr>"
  let ?st1 = "snd (s3AdminNew demoAdminEnv ?cA newAdminFactory)"
  have pA: "urlParse demoAdminEnv (HostURL ?cA) = Inr ?uA"
    by (simp add: demoAdminEnv_def demoConfig_def)
  have pB: "urlParse demoAdminEnv (HostURL ?cB) = Inr ?uB"
    by (simp add: demoAdminEnv_def demoConfig_def)
  have first: "s3AdminNew demoAdminEnv ?cA (s3AdminNew_calls demoAdminEnv [] newAdminFactory)
                 = (Returns (Some 0, None), ?st1)"
    by (simp add: s3AdminNew_def demoAdminEnv_def demoConfig_def newAdminFactory_def
          confSumOf_def Let_def)
  have ne: "confSumOf ?uA ?cA \<noteq> confSumOf ?uB ?cB"
    by (simp add: confSumOf_def demoConfig_def fnv32a_def)
  have secondB: "s3AdminNew demoAdminEnv ?cB ?st1
                   = (Returns (Some 1, None), snd (s3AdminNew demoAdminEnv ?cB ?st1))"
    by (simp add: s3AdminNew_def demoAdminEnv_def demoConfig_def newAdminFactory_def
          confSumOf_def Let_def fnv32a_def)
  have again: "s3AdminNew demoAdminEnv ?cA (s3AdminNew_calls demoAdminEnv [?cB] ?st1)
                 = (Returns (Some 0, None), s3AdminNew_calls demoAdminEnv [?cB] ?st1)"
    using s3AdminNew_same_fingerprint [OF pA pA first refl, of "[?cB]"] by simp
  have other: "(1::nat) \<noteq> 0"
    using s3AdminNew_same_fingerprint [OF pA pB first, of ?st1 "[]"] ne secondB by simp
  have f1: "fst (s3AdminNew demoAdminEnv ?cA newAdminFactory) = Returns (Some 0, None)"
    using arg_cong [OF first, of fst] by simp
  have f2: "fst (s3AdminNew demoAdminEnv ?cA (s3AdminNew_calls demoAdminEnv [?cB] ?st1))
              = Returns (Some 0, None)"
    using arg_cong [OF again, of fst] by (simp only: fst_conv)
  have f3: "fst (s3AdminNew demoAdminEnv ?cB ?st1) = Returns (Some 1, None)"
    using arg_cong [OF secondB, of fst] by (simp only: fst_conv)
  from f1 f2 f3 other show ?thesis by (intro conjI)
qed

text \<open>
  C1 as stated fails: two configurations that differ in access key and secret key but
  agree on host, access key and secret key written one after the other get the same
  client.
\<close>

theorem s3AdminNew_distinct_tuples_share:
  "AccessKey (demoConfig ''https://minio.example'' ''admin1'' ''secret'')
     \<noteq> AccessKey (demoConfig ''https://minio.example'' ''admin'' ''1secret'')
   \<and> s3AdminNew demoAdminEnv (demoConfig ''https://minio.example'' ''admin1'' ''secret'')
        newAdminFactory
      = (Returns (Some 0, None),
         snd (s3AdminNew demoAdminEnv (demoConfig ''https://minio.example'' ''admin1'' ''secret'')
           newAdminFactory))
   \<and> fst (s3AdminNew demoAdminEnv (demoConfig ''https://minio.example'' ''admin'' ''1secret'')
        (snd (s3AdminNew demoAdminEnv (demoConfig ''https://minio.example'' ''admin1'' ''secret'')
           newAdminFactory)))
      = Returns (Some 0, None)"
  by (simp add: s3AdminNew_def demoAdminEnv_def demoConfig_def newAdminFactory_def confSumOf_def Let_def)

section \<open>Properties of the credential resolution\<close>

lemma minioConfigSupportsSubnet_loop_iff:
  "minioConfigSupportsSubnet_loop hs = (''subnet'' \<in> HelpKV.Key ` set hs)"
  by (induction hs) auto

lemma getSubnetKeyFromMinIOConfig_loop_eq:
  "getSubnetKeyFromMinIOConfig_loop kvs key =
     (case map_of (map (\<lambda>kv. (KV.Key kv, Value kv)) kvs) key of
        None \<Rightarrow> None
      | Some v \<Rightarrow> Some (True, v))"
  by (induction kvs) auto

lemma getSubnetKeyFromMinIOConfig_supported:
  assumes "newAdminClient env alias st = (Returns (Some client, None), st')"
    and "HelpConfigKV env client '''' = Inr help"
    and "''subnet'' \<in> HelpKV.Key ` set (KeysHelp help)"
    and "HelpConfigKV env client ''subnet'' = Inr sh"
    and "GetConfigKV env client ''subnet'' = Inr buf"
    and "ParseSubSysTarget env buf sh = Inr tgt"
  shows "getSubnetKeyFromMinIOConfig env alias key st =
           (case map_of (map (\<lambda>kv. (KV.Key kv, Value kv)) (KVS tgt)) key of
              None \<Rightarrow> (Returns (False, ''''), st')
            | Some v \<Rightarrow> (Returns (True, v), st'))"
  using assms
  by (simp add: getSubnetKeyFromMinIOConfig_def minioConfigSupportsSubnet_def
        minioConfigSupportsSubnet_loop_iff getSubnetKeyFromMinIOConfig_loop_eq
      split: option.splits)

lemma getSubnetKeyFromMinIOConfig_unsupported:
  assumes "newAdminClient env alias st = (Returns (Some client, None), st')"
    and "HelpConfigKV env client '''' = Inr help"
    and "''subnet'' \<notin> HelpKV.Key ` set (KeysHelp help)"
  shows "getSubnetKeyFromMinIOConfig env alias key st = (Returns (False, ''''), st')"
  using assms
  by (simp add: getSubnetKeyFromMinIOConfig_def minioConfigSupportsSubnet_def
        minioConfigSupportsSubnet_loop_iff)

text \<open>
  C2. Take an alias whose admin connection initialises and whose cluster answers the
  probe of its configuration schema. If the schema lists \<open>subnet\<close> and the cluster's
  \<open>subnet\<close> configuration is read and parsed, then a value it holds for \<open>api_key\<close>
  (for \<open>license\<close>) is what \<open>getSubnetAPIKeyFromConfig\<close> (\<open>getSubnetLicenseFromConfig\<close>)
  returns, whatever the local configuration says or whether it loads at all. If the
  cluster does not hold the key (the schema has no \<open>subnet\<close>, or its configuration has
  no such key), the result is the field of the alias in the loaded local configuration,
  the empty string when the alias has no entry.
\<close>

theorem credential_precedence:
  assumes client: "newAdminClient env alias st = (Returns (Some client, None), st')"
    and hlp: "HelpConfigKV env client '''' = Inr help"
  shows "(''subnet'' \<in> HelpKV.Key ` set (KeysHelp help)
          \<and> HelpConfigKV env client ''subnet'' = Inr sh
          \<and> GetConfigKV env client ''subnet'' = Inr buf
          \<and> ParseSubSysTarget env buf sh = Inr tgt
          \<longrightarrow>
            (\<forall>v. map_of (map (\<lambda>kv. (KV.Key kv, Value kv)) (KVS tgt)) ''api_key'' = Some v
                 \<longrightarrow> getSubnetAPIKeyFromConfig env alias st = (Returns v, st'))
          \<and> (\<forall>v. map_of (map (\<lambda>kv. (KV.Key kv, Value kv)) (KVS tgt)) ''license'' = Some v
                 \<longrightarrow> getSubnetLicenseFromConfig env alias st = (Returns v, st'))
          \<and> (\<forall>config. loadMcConfig env = Inr config \<longrightarrow>
                (''api_key'' \<notin> KV.Key ` set (KVS tgt)
                   \<longrightarrow> getSubnetAPIKeyFromConfig env alias st
                         = (Returns (APIKey (aliasOf config alias)), st'))
              \<and> (''license'' \<notin> KV.Key ` set (KVS tgt)
                   \<longrightarrow> getSubnetLicenseFromConfig env alias st
                         = (Returns (License (aliasOf config alias)), st'))))
       \<and> (''subnet'' \<notin> HelpKV.Key ` set (KeysHelp help)
          \<longrightarrow> (\<forall>config. loadMcConfig env = Inr config \<longrightarrow>
                  getSubnetAPIKeyFromConfig env alias st
                    = (Returns (APIKey (aliasOf config alias)), st')
                \<and> getSubnetLicenseFromConfig env alias st
                    = (Returns (License (aliasOf config alias)), st')))"
proof -
  have absent: "map_of (map (\<lambda>kv. (KV.Key kv, Value kv)) kvs) k = None"
    if "k \<notin> KV.Key ` set kvs" for kvs k
    using that by (simp add: map_of_eq_None_iff image_image)
  show ?thesis
  proof (intro conjI impI allI)
    fix v
    assume a: "''subnet'' \<in> HelpKV.Key ` set (KeysHelp help)
          \<and> HelpConfigKV env client ''subnet'' = Inr sh
          \<and> GetConfigKV env client ''subnet'' = Inr buf
          \<and> ParseSubSysTarget env buf sh = Inr tgt"
      and v: "map_of (map (\<lambda>kv. (KV.Key kv, Value kv)) (KVS tgt)) ''api_key'' = Some v"
    show "getSubnetAPIKeyFromConfig env alias st = (Returns v, st')"
      using a v getSubnetKeyFromMinIOConfig_supported [OF client hlp, of sh buf tgt "''api_key''"]
      by (simp add: getSubnetAPIKeyFromConfig_def)
  next
    fix v
    assume a: "''subnet'' \<in> HelpKV.Key ` set (KeysHelp help)
          \<and> HelpConfigKV env client ''subnet'' = Inr sh
          \<and> GetConfigKV env client ''subnet'' = Inr buf
          \<and> ParseSubSysTarget env buf sh = Inr tgt"
      and v: "map_of (map (\<lambda>kv. (KV.Key kv, Value kv)) (KVS tgt)) ''license'' = Some v"
    show "getSubnetLicenseFromConfig env alias st = (Returns v, st')"
      using a v getSubnetKeyFromMinIOConfig_supported [OF client hlp, of sh buf tgt "''license''"]
      by (simp add: getSubnetLicenseFromConfig_def)
  next
    fix config
    assume a: "''subnet'' \<in> HelpKV.Key ` set (KeysHelp help)
          \<and> HelpConfigKV env client ''subnet'' = Inr sh
          \<and> GetConfigKV env client ''subnet'' = Inr buf
          \<and> ParseSubSysTarget env buf sh = Inr tgt"
      and c: "loadMcConfig env = Inr config"
      and n: "''api_key'' \<notin> KV.Key ` set (KVS tgt)"
    show "getSubnetAPIKeyFromConfig env alias st = (Returns (APIKey (aliasOf config alias)), st')"
      using a c absent [OF n]
        getSubnetKeyFromMinIOConfig_supported [OF client hlp, of sh buf tgt "''api_key''"]
      by (simp add: getSubnetAPIKeyFromConfig_def mcConfig_def)
  next
    fix config
    assume a: "''subnet'' \<in> HelpKV.Key ` set (KeysHelp help)
          \<and> HelpConfigKV env client ''subnet'' = Inr sh
          \<and> GetConfigKV env client ''subnet'' = Inr buf
          \<and> ParseSubSysTarget env buf sh = Inr tgt"
      and c: "loadMcConfig env = Inr config"
      and n: "''license'' \<notin> KV.Key ` set (KVS tgt)"
    show "getSubnetLicenseFromConfig env alias st = (Returns (License (aliasOf config alias)), st')"
      using a c absent [OF n]
        getSubnetKeyFromMinIOConfig_supported [OF client hlp, of sh buf tgt "''license''"]
      by (simp add: getSubnetLicenseFromConfig_def mcConfig_def)
  next
    fix config
    assume n: "''subnet'' \<notin> HelpKV.Key ` set (KeysHelp help)"
      and c: "loadMcConfig env = Inr config"
    show "getSubnetAPIKeyFromConfig env alias st = (Returns (APIKey (aliasOf config alias)), st')"
      using c getSubnetKeyFromMinIOConfig_unsupported [OF client hlp n, of "''api_key''"]
      by (simp add: getSubnetAPIKeyFromConfig_def mcConfig_def)
  next
    fix config
    assume n: "''subnet'' \<notin> HelpKV.Key ` set (KeysHelp help)"
      and c: "loadMcConfig env = Inr config"
    show "getSubnetLicenseFromConfig env alias st = (Returns (License (aliasOf config alias)), st')"
      using c getSubnetKeyFromMinIOConfig_unsupported [OF client hlp n, of "''license''"]
      by (simp add: getSubnetLicenseFromConfig_def mcConfig_def)
  qed
qed

lemmas demo_admin_defs =
  demoAdminEnv_def demoAdminEnv_nokeys_def demoAdminEnv_nosubnet_def demoConfig_def
  newAdminClient_def newAdminClientFromAlias_def s3AdminNew_def newAdminFactory_def
  confSumOf_def Let_def

theorem credential_precedence_witness:
  "fst (getSubnetAPIKeyFromConfig demoAdminEnv ''myminio'' newAdminFactory)
     = Returns ''server-key''
   \<and> fst (getSubnetLicenseFromConfig demoAdminEnv ''myminio'' newAdminFactory) = Returns ''''
   \<and> fst (getSubnetAPIKeyFromConfig demoAdminEnv_nokeys ''myminio'' newAdminFactory)
     = Returns ''local-key''
   \<and> fst (getSubnetLicenseFromConfig demoAdminEnv_nokeys ''myminio'' newAdminFactory)
     = Returns ''local-lic''
   \<and> fst (getSubnetAPIKeyFromConfig demoAdminEnv_nosubnet ''myminio'' newAdminFactory)
     = Returns ''local-key''
   \<and> fst (getSubnetLicenseFromConfig demoAdminEnv_nosubnet ''myminio'' newAdminFactory)
     = Returns ''local-lic''"
proof -
  let ?hlp = "\<lparr>KeysHelp = [\<lparr>HelpKV.Key = ''region''\<rparr>, \<lparr>HelpKV.Key = ''subnet''\<rparr>]\<rparr>"
  let ?tgt = "\<lparr>KVS = [\<lparr>KV.Key = ''license'', Value = ''''\<rparr>,
                         \<lparr>KV.Key = ''api_key'', Value = ''server-key''\<rparr>]\<rparr>"
  let ?cfg = "\<lparr>Aliases = [''myminio'' \<mapsto> \<lparr>APIKey = ''local-key'', License = ''local-lic''\<rparr>]\<rparr>"
  have c1: "newAdminClient demoAdminEnv ''myminio'' newAdminFactory
              = (Returns (Some 0, None), snd (newAdminClient demoAdminEnv ''myminio'' newAdminFactory))"
    by (simp add: demo_admin_defs)
  have h1: "HelpConfigKV demoAdminEnv 0 '''' = Inr ?hlp"
    by (simp add: demo_admin_defs)
  have c2: "newAdminClient demoAdminEnv_nokeys ''myminio'' newAdminFactory
              = (Returns (Some 0, None),
                 snd (newAdminClient demoAdminEnv_nokeys ''myminio'' newAdminFactory))"
    by (simp add: demo_admin_defs)
  have h2: "HelpConfigKV demoAdminEnv_nokeys 0 '''' = Inr ?hlp"
    by (simp add: demo_admin_defs)
  have c3: "newAdminClient demoAdminEnv_nosubnet ''myminio'' newAdminFactory
              = (Returns (Some 0, None),
                 snd (newAdminClient demoAdminEnv_nosubnet ''myminio'' newAdminFactory))"
    by (simp add: demo_admin_defs)
  have h3: "HelpConfigKV demoAdminEnv_nosubnet 0 '''' = Inr \<lparr>KeysHelp = [\<lparr>HelpKV.Key = ''region''\<rparr>]\<rparr>"
    by (simp add: demo_admin_defs)
  have p1: "fst (getSubnetAPIKeyFromConfig demoAdminEnv ''myminio'' newAdminFactory)
              = Returns ''server-key''
          \<and> fst (getSubnetLicenseFromConfig demoAdminEnv ''myminio'' newAdminFactory)
              = Returns ''''"
    using credential_precedence [OF c1 h1, of ?hlp "''subnet license= api_key=server-key''" ?tgt]
    by (simp add: demoAdminEnv_def)
  have p2: "fst (getSubnetAPIKeyFromConfig demoAdminEnv_nokeys ''myminio'' newAdminFactory)
              = Returns ''local-key''
          \<and> fst (getSubnetLicenseFromConfig demoAdminEnv_nokeys ''myminio'' newAdminFactory)
              = Returns ''local-lic''"
    using credential_precedence [OF c2 h2, of ?hlp "''subnet license= api_key=server-key''"
            "\<lparr>KVS = []\<rparr>"]
    by (simp add: demoAdminEnv_def demoAdminEnv_nokeys_def aliasOf_def)
  have p3: "fst (getSubnetAPIKeyFromConfig demoAdminEnv_nosubnet ''myminio'' newAdminFactory)
              = Returns ''local-key''
          \<and> fst (getSubnetLicenseFromConfig demoAdminEnv_nosubnet ''myminio'' newAdminFactory)
              = Returns ''local-lic''"
    using credential_precedence [OF c3 h3]
    by (simp add: demoAdminEnv_def demoAdminEnv_nosubnet_def aliasOf_def)
  from p1 p2 p3 show ?thesis by simp
qed

section \<open>Properties of the registry flows\<close>

lemmas demo_subnet_defs =
  demoSubnetEnv_def demoWorld_def demoOK_def demoMarshal_def demoArray_def demoString_def
  demoBool_def demoParse_def demoOrg_def
  subnetLogin_def subnetLogin_login_def subnetLogin_mfa_def subnetLogin_token_def
  subnetPostReq_def subnetGetReq_def subnetReqDo_def httpDo_def NewRequest_def
  HeaderAdd_def HeaderGet_def ReadAllLimited_def subnetRespBodyLimit_def
  subnetLoginURL_def subnetMFAURL_def subnetOrgsURL_def subnetBaseURL_def
  subnetAuthHeaders_def Print_def ReadString_def ReadPassword_def Trim_def Let_def
  getSubnetAccID_def getSubnetAccID_choose_def index_def Atoi_def isDigit_def digitsValue_def
  subnetURLWithAuth_def minioSubscriptionURL_def

lemmas demo_docs =
  demoLoginPlain_def demoLoginMFA_def demoThreeOrgs_def demoOneOrg_def demoRegisterURL_def

lemma fold_HeaderAdd_keeps:
  "ReqURL (fold (\<lambda>(k, v) r. HeaderAdd env k v r) hs r) = ReqURL r
   \<and> Method (fold (\<lambda>(k, v) r. HeaderAdd env k v r) hs r) = Method r
   \<and> ReqBody (fold (\<lambda>(k, v) r. HeaderAdd env k v r) hs r) = ReqBody r"
  by (induction hs arbitrary: r) (auto simp: HeaderAdd_def)

lemma subnetReqDo_world:
  "\<exists>r'. sent (snd (subnetReqDo env r headers w)) = sent w @ [r']
         \<and> ReqURL r' = ReqURL r \<and> Method r' = Method r \<and> ReqBody r' = ReqBody r
         \<and> stdin (snd (subnetReqDo env r headers w)) = stdin w
         \<and> stdout (snd (subnetReqDo env r headers w)) = stdout w"
  unfolding subnetReqDo_def httpDo_def Let_def
  by (auto simp: fold_HeaderAdd_keeps HeaderAdd_def split: sum.splits)

lemma subnetPostReq_ok:
  assumes "subnetPostReq env url pl headers w = ((respStr, None), w')"
  shows "\<exists>r. sent w' = sent w @ [r] \<and> ReqURL r = url \<and> Method r = ''POST''
             \<and> stdin w' = stdin w \<and> stdout w' = stdout w"
proof -
  from assms obtain body r0 where
    r0: "NewRequest env ''POST'' url (Some body) = Inr r0"
    and run: "subnetReqDo env r0 headers w = ((respStr, None), w')"
    by (auto simp: subnetPostReq_def split: sum.splits)
  from r0 have "ReqURL r0 = url \<and> Method r0 = ''POST''"
    by (auto simp: NewRequest_def split: option.splits)
  with subnetReqDo_world [of env r0 headers w] run show ?thesis by auto
qed

lemma subnetPostReq_plain:
  assumes "jsonMarshal env pl = Inr body"
    and "NewRequestErr env ''POST'' url = None"
  shows "sent (snd (subnetPostReq env url pl None w))
           = sent w @ [\<lparr>Method = ''POST'', ReqURL = url,
                         Header = [(CanonicalMIMEHeaderKey env ''Content-Type'', ''application/json'')],
                         ReqBody = Some body\<rparr>]"
    and "httpClientDo env (sent w)
            \<lparr>Method = ''POST'', ReqURL = url,
             Header = [(CanonicalMIMEHeaderKey env ''Content-Type'', ''application/json'')],
             ReqBody = Some body\<rparr> = Inr resp
         \<Longrightarrow> StatusCode resp = 200 \<Longrightarrow> ReadAllLimited resp = Inr respStr
         \<Longrightarrow> fst (subnetPostReq env url pl None w) = (respStr, None)"
  using assms
  by (simp_all add: subnetPostReq_def NewRequest_def subnetReqDo_def httpDo_def HeaderGet_def
        HeaderAdd_def Let_def split: sum.splits)

lemma subnetLogin_login_world:
  assumes "subnetLogin_login env w = (Inr (username, respStr), w1)"
  shows "(\<exists>r. sent w1 = sent w @ [r] \<and> Method r = ''POST'' \<and> ReqURL r = subnetLoginURL env)
         \<and> stdout w1 = stdout w @ [''SUBNET username: '', ''Password: '', [CHR 0x0A]]"
proof -
  obtain u wa where rs: "ReadString (Print ''SUBNET username: '' w) = (u, wa)"
    by (cases "ReadString (Print ''SUBNET username: '' w)")
  obtain pw wb where rp: "ReadPassword (Print ''Password: '' wa) = (pw, wb)"
    by (cases "ReadPassword (Print ''Password: '' wa)")
  have wa: "sent wa = sent w \<and> stdout wa = stdout w @ [''SUBNET username: '']"
    using rs by (auto simp: ReadString_def Print_def split: list.splits)
  have wb: "sent wb = sent wa \<and> stdout wb = stdout wa @ [''Password: '']"
    using rp by (auto simp: ReadPassword_def Print_def split: list.splits)
  from assms rs rp have post:
    "subnetPostReq env (subnetLoginURL env)
       (MapPayload [(''username'', TrimSpace env u), (''password'', pw)]) None
       (Print [CHR 0x0A] wb) = ((respStr, None), w1)"
    by (auto simp: subnetLogin_login_def Let_def split: if_splits prod.splits)
  from subnetPostReq_ok [OF post] wa wb show ?thesis
    by (auto simp: Print_def)
qed

lemma login_mfa_urls: "subnetLoginURL env \<noteq> subnetMFAURL env"
  by (simp add: subnetLoginURL_def subnetMFAURL_def)

text \<open>
  C7. Suppose \<open>subnetLogin\<close> got as far as a successful login request (one POST to
  the login endpoint) with response \<open>respStr\<close>. If \<open>mfa_required\<close> reads false in it,
  nothing more is printed, read or sent, no request to the second-factor endpoint is
  added, and an access token present in \<open>respStr\<close> is returned. If \<open>mfa_required\<close>
  reads true (and the second-factor payload marshals and its request can be built),
  exactly one request is added, a POST to the second-factor endpoint, and when it is
  answered with status 200 the result is read from that answer, not from \<open>respStr\<close>.
\<close>

theorem subnetLogin_mfa_flow:
  assumes login: "subnetLogin_login env w = (Inr (username, respStr), w1)"
  shows
    "(\<exists>r. sent w1 = sent w @ [r] \<and> Method r = ''POST'' \<and> ReqURL r = subnetLoginURL env)
     \<and> (\<not> ResultBool env (gjsonGet env respStr ''mfa_required'') \<longrightarrow>
           snd (subnetLogin env w) = w1
         \<and> stdout w1 = stdout w @ [''SUBNET username: '', ''Password: '', [CHR 0x0A]]
         \<and> filter (\<lambda>r. ReqURL r = subnetMFAURL env) (sent (snd (subnetLogin env w)))
             = filter (\<lambda>r. ReqURL r = subnetMFAURL env) (sent w)
         \<and> (ResultExists env (gjsonGet env respStr ''token_info.access_token'') \<longrightarrow>
               fst (subnetLogin env w)
                 = (ResultString env (gjsonGet env respStr ''token_info.access_token''), None)))
     \<and> (ResultBool env (gjsonGet env respStr ''mfa_required'')
         \<and> jsonMarshal env
               (MFAPayload \<lparr>Username = username,
                            OTP = fst (ReadPassword (Print ''OTP received in email: '' w1)),
                            Token = ResultString env (gjsonGet env respStr ''mfa_token'')\<rparr>)
             = Inr body
         \<and> NewRequestErr env ''POST'' (subnetMFAURL env) = None \<longrightarrow>
           sent (snd (subnetLogin env w))
             = sent w1 @ [\<lparr>Method = ''POST'', ReqURL = subnetMFAURL env,
                            Header = [(CanonicalMIMEHeaderKey env ''Content-Type'',
                                       ''application/json'')],
                            ReqBody = Some body\<rparr>]
         \<and> filter (\<lambda>r. ReqURL r = subnetMFAURL env) (sent (snd (subnetLogin env w)))
             = filter (\<lambda>r. ReqURL r = subnetMFAURL env) (sent w)
               @ [\<lparr>Method = ''POST'', ReqURL = subnetMFAURL env,
                   Header = [(CanonicalMIMEHeaderKey env ''Content-Type'',
                              ''application/json'')],
                   ReqBody = Some body\<rparr>]
         \<and> (\<forall>resp respStr2.
               httpClientDo env (sent w1)
                 \<lparr>Method = ''POST'', ReqURL = subnetMFAURL env,
                  Header = [(CanonicalMIMEHeaderKey env ''Content-Type'', ''application/json'')],
                  ReqBody = Some body\<rparr> = Inr resp
               \<and> StatusCode resp = 200 \<and> ReadAllLimited resp = Inr respStr2 \<longrightarrow>
               fst (subnetLogin env w) = subnetLogin_token env respStr2))"
proof -
  let ?mfa = "ResultBool env (gjsonGet env respStr ''mfa_required'')"
  let ?R = "\<lparr>Method = ''POST'', ReqURL = subnetMFAURL env,
             Header = [(CanonicalMIMEHeaderKey env ''Content-Type'', ''application/json'')],
             ReqBody = Some body\<rparr>"
  let ?pl = "MFAPayload \<lparr>Username = username,
                          OTP = fst (ReadPassword (Print ''OTP received in email: '' w1)),
                          Token = ResultString env (gjsonGet env respStr ''mfa_token'')\<rparr>"
  let ?wo = "Print [CHR 0x0A] (snd (ReadPassword (Print ''OTP received in email: '' w1)))"
  note lw = subnetLogin_login_world [OF login]
  from lw obtain r where r: "sent w1 = sent w @ [r]" "ReqURL r = subnetLoginURL env"
    by auto
  have nomfa_filter:
    "filter (\<lambda>r. ReqURL r = subnetMFAURL env) (sent w1)
       = filter (\<lambda>r. ReqURL r = subnetMFAURL env) (sent w)"
    using r login_mfa_urls [of env] by simp
  have part2: "snd (subnetLogin env w) = w1
      \<and> (ResultExists env (gjsonGet env respStr ''token_info.access_token'') \<longrightarrow>
               fst (subnetLogin env w)
                 = (ResultString env (gjsonGet env respStr ''token_info.access_token''), None))"
    if "\<not> ?mfa"
    using that login
    by (simp add: subnetLogin_def subnetLogin_mfa_def subnetLogin_token_def Let_def)
  have sentwo: "sent ?wo = sent w1"
    by (simp add: Print_def ReadPassword_def split: list.splits)
  have run: "subnetLogin env w
      = (case subnetPostReq env (subnetMFAURL env) ?pl None ?wo of
           ((respStr2, e), w2) \<Rightarrow>
             if e \<noteq> None then (('''', e), w2) else (subnetLogin_token env respStr2, w2))"
    if "?mfa"
    using that login
    by (simp add: subnetLogin_def subnetLogin_mfa_def Let_def split: prod.splits)
  have part3: "sent (snd (subnetLogin env w)) = sent w1 @ [?R]
      \<and> (\<forall>resp respStr2.
               httpClientDo env (sent w1) ?R = Inr resp
               \<and> StatusCode resp = 200 \<and> ReadAllLimited resp = Inr respStr2 \<longrightarrow>
               fst (subnetLogin env w) = subnetLogin_token env respStr2)"
    if m: "?mfa" and j: "jsonMarshal env ?pl = Inr body"
      and n: "NewRequestErr env ''POST'' (subnetMFAURL env) = None"
  proof -
    obtain r2 e w2 where pr:
      "subnetPostReq env (subnetMFAURL env) ?pl None ?wo = ((r2, e), w2)"
      by (metis prod.exhaust)
    have s: "sent w2 = sent w1 @ [?R]"
      using subnetPostReq_plain(1) [OF j n, of ?wo] sentwo pr by simp
    have f: "r2 = respStr2 \<and> e = None"
      if "httpClientDo env (sent w1) ?R = Inr resp \<and> StatusCode resp = 200
          \<and> ReadAllLimited resp = Inr respStr2" for resp respStr2
      using subnetPostReq_plain(2) [OF j n, of ?wo resp respStr2] that sentwo pr by simp
    have sw: "snd (subnetLogin env w) = w2"
      unfolding run [OF m] pr by simp
    show ?thesis
    proof (intro conjI allI impI)
      show "sent (snd (subnetLogin env w)) = sent w1 @ [?R]"
        unfolding sw by (rule s)
    next
      fix resp respStr2
      assume h: "httpClientDo env (sent w1) ?R = Inr resp \<and> StatusCode resp = 200
          \<and> ReadAllLimited resp = Inr respStr2"
      from f [OF h] show "fst (subnetLogin env w) = subnetLogin_token env respStr2"
        unfolding run [OF m] pr by simp
    qed
  qed
  show ?thesis
    using lw part2 part3 nomfa_filter by auto
qed

theorem subnetLogin_mfa_flow_witness:
  "fst (subnetLogin (demoSubnetEnv demoLoginPlain (demoOK ''[]''))
          (demoWorld [''alice'' @ [CHR 0x0A], ''pw''])) = (''tok-1'', None)
   \<and> map ReqURL (sent (snd (subnetLogin (demoSubnetEnv demoLoginPlain (demoOK ''[]''))
          (demoWorld [''alice'' @ [CHR 0x0A], ''pw'']))))
       = [''https://subnet.min.io/api/auth/login'']
   \<and> fst (subnetLogin (demoSubnetEnv demoLoginMFA (demoOK ''[]''))
          (demoWorld [''alice'' @ [CHR 0x0A], ''pw'', ''123456''])) = (''tok-2'', None)
   \<and> map ReqURL (sent (snd (subnetLogin (demoSubnetEnv demoLoginMFA (demoOK ''[]''))
          (demoWorld [''alice'' @ [CHR 0x0A], ''pw'', ''123456'']))))
       = [''https://subnet.min.io/api/auth/login'', ''https://subnet.min.io/api/auth/mfa-login'']"
proof -
  let ?e1 = "demoSubnetEnv demoLoginPlain (demoOK ''[]'')"
  let ?w1 = "demoWorld [''alice'' @ [CHR 0x0A], ''pw'']"
  let ?e2 = "demoSubnetEnv demoLoginMFA (demoOK ''[]'')"
  let ?w2 = "demoWorld [''alice'' @ [CHR 0x0A], ''pw'', ''123456'']"
  let ?body = "''{\"username\":\"alice\",\"otp\":\"123456\",\"token\":\"mfa-9\"}''"
  let ?resp = "\<lparr>StatusCode = 200, RespBody = ''{\"token_info\":{\"access_token\":\"tok-2\"}}'',
                ReadErr = None\<rparr>"
  have l1: "subnetLogin_login ?e1 ?w1
              = (Inr (''alice'', demoLoginPlain), snd (subnetLogin_login ?e1 ?w1))"
    by (simp add: demo_subnet_defs demo_docs)
  have l2: "subnetLogin_login ?e2 ?w2
              = (Inr (''alice'', demoLoginMFA), snd (subnetLogin_login ?e2 ?w2))"
    by (simp add: demo_subnet_defs demo_docs)
  have s1: "map ReqURL (sent (snd (subnetLogin_login ?e1 ?w1)))
              = [''https://subnet.min.io/api/auth/login'']"
    by (simp add: demo_subnet_defs demo_docs)
  have s2: "map ReqURL (sent (snd (subnetLogin_login ?e2 ?w2)))
              = [''https://subnet.min.io/api/auth/login'']"
    by (simp add: demo_subnet_defs demo_docs)
  have a: "fst (subnetLogin ?e1 ?w1) = (''tok-1'', None)
           \<and> snd (subnetLogin ?e1 ?w1) = snd (subnetLogin_login ?e1 ?w1)"
    using subnetLogin_mfa_flow [OF l1, of "[]"]
    by (simp add: demoSubnetEnv_def demoBool_def demoString_def demoParse_def demo_docs)
  have b: "sent (snd (subnetLogin ?e2 ?w2))
             = sent (snd (subnetLogin_login ?e2 ?w2))
               @ [\<lparr>Method = ''POST'', ReqURL = ''https://subnet.min.io/api/auth/mfa-login'',
                   Header = [(''Content-Type'', ''application/json'')], ReqBody = Some ?body\<rparr>]
           \<and> fst (subnetLogin ?e2 ?w2) = (''tok-2'', None)"
    using subnetLogin_mfa_flow [OF l2, of ?body]
    by (simp add: demo_subnet_defs demo_docs)
  from a b s1 s2 show ?thesis by simp
qed

text \<open>
  C3. \<open>subnetURLWithAuth\<close> takes exactly one of three ways, in this order. With a
  non-empty API key the URL gets \<open>?api_key=\<close> and the key, with no header and nothing
  printed, read or sent. Otherwise, with a non-empty license, the URL gets
  \<open>?license=\<close> and the license, likewise. Otherwise \<open>subnetLogin\<close> runs: when it
  fails its error is returned, and when it gives a token and the account lookup with
  the header \<open>Authorization: Bearer token\<close> gives an account ID, the URL gets \<open>?aid=\<close>
  and the account ID and that header is returned with it.
\<close>

theorem subnetURLWithAuth_strategies:
  "(apiKey \<noteq> [] \<longrightarrow>
      subnetURLWithAuth env reqURL apiKey license w
        = (Returns (reqURL @ ''?api_key='' @ apiKey, Some [], None), w))
   \<and> (apiKey = [] \<and> license \<noteq> [] \<longrightarrow>
      subnetURLWithAuth env reqURL apiKey license w
        = (Returns (reqURL @ ''?license='' @ license, Some [], None), w))
   \<and> (apiKey = [] \<and> license = [] \<longrightarrow>
        (\<forall>token w1 accID w2.
            subnetLogin env w = ((token, None), w1)
            \<and> getSubnetAccID env (Some [(''Authorization'', ''Bearer '' @ token)]) w1
                = (Returns (accID, None), w2)
            \<longrightarrow> subnetURLWithAuth env reqURL apiKey license w
                  = (Returns (reqURL @ ''?aid='' @ accID,
                              Some [(''Authorization'', ''Bearer '' @ token)], None), w2))
      \<and> (\<forall>token e w1.
            subnetLogin env w = ((token, Some e), w1)
            \<longrightarrow> subnetURLWithAuth env reqURL apiKey license w
                  = (Returns ('''', None, Some e), w1)))"
  by (auto simp: subnetURLWithAuth_def subnetAuthHeaders_def Let_def)

theorem subnetURLWithAuth_strategies_witness:
  "fst (subnetURLWithAuth (demoSubnetEnv demoLoginPlain (demoOK demoOneOrg)) demoRegisterURL
          ''key-1'' ''lic-1'' (demoWorld []))
     = Returns (''https://subnet.min.io/api/cluster/register?api_key=key-1'', Some [], None)
   \<and> fst (subnetURLWithAuth (demoSubnetEnv demoLoginPlain (demoOK demoOneOrg)) demoRegisterURL
          '''' ''lic-1'' (demoWorld []))
     = Returns (''https://subnet.min.io/api/cluster/register?license=lic-1'', Some [], None)
   \<and> fst (subnetURLWithAuth (demoSubnetEnv demoLoginPlain (demoOK demoOneOrg)) demoRegisterURL
          '''' '''' (demoWorld [''alice'' @ [CHR 0x0A], ''pw'']))
     = Returns (''https://subnet.min.io/api/cluster/register?aid=17'',
                Some [(''Authorization'', ''Bearer tok-1'')], None)
   \<and> fst (subnetURLWithAuth (demoSubnetEnv demoLoginPlain (demoOK demoOneOrg)) demoRegisterURL
          '''' '''' (demoWorld [[CHR 0x0A]]))
     = Returns ('''', None,
         Some (errorString ''Username cannot be empty. If you don't have one, please create one from here: https://min.io/subscription''))"
proof -
  let ?e = "demoSubnetEnv demoLoginPlain (demoOK demoOneOrg)"
  let ?w = "demoWorld [''alice'' @ [CHR 0x0A], ''pw'']"
  have lg: "subnetLogin ?e ?w = ((''tok-1'', None), snd (subnetLogin ?e ?w))"
    by (simp add: demo_subnet_defs demo_docs)
  have acc: "getSubnetAccID ?e (Some [(''Authorization'', ''Bearer '' @ ''tok-1'')])
               (snd (subnetLogin ?e ?w))
             = (Returns (''17'', None),
                snd (getSubnetAccID ?e (Some [(''Authorization'', ''Bearer '' @ ''tok-1'')])
                       (snd (subnetLogin ?e ?w))))"
    by (simp add: demo_subnet_defs demo_docs)
  have bad: "subnetLogin ?e (demoWorld [[CHR 0x0A]])
      = (('''', Some (errorString ''Username cannot be empty. If you don't have one, please create one from here: https://min.io/subscription'')),
         snd (subnetLogin ?e (demoWorld [[CHR 0x0A]])))"
    by (simp add: demo_subnet_defs demo_docs)
  have a: "fst (subnetURLWithAuth ?e demoRegisterURL ''key-1'' ''lic-1'' (demoWorld []))
     = Returns (''https://subnet.min.io/api/cluster/register?api_key=key-1'', Some [], None)"
    using subnetURLWithAuth_strategies [of "''key-1''" ?e demoRegisterURL "''lic-1''" "demoWorld []"]
    by (simp add: demoRegisterURL_def)
  have b: "fst (subnetURLWithAuth ?e demoRegisterURL '''' ''lic-1'' (demoWorld []))
     = Returns (''https://subnet.min.io/api/cluster/register?license=lic-1'', Some [], None)"
    using subnetURLWithAuth_strategies [of "''''" ?e demoRegisterURL "''lic-1''" "demoWorld []"]
    by (simp add: demoRegisterURL_def)
  have c: "fst (subnetURLWithAuth ?e demoRegisterURL '''' '''' ?w)
     = Returns (''https://subnet.min.io/api/cluster/register?aid=17'',
                Some [(''Authorization'', ''Bearer tok-1'')], None)"
    using subnetURLWithAuth_strategies [of "''''" ?e demoRegisterURL "''''" ?w] lg acc
    by (simp add: demoRegisterURL_def)
  have d: "fst (subnetURLWithAuth ?e demoRegisterURL '''' '''' (demoWorld [[CHR 0x0A]]))
     = Returns ('''', None,
         Some (errorString ''Username cannot be empty. If you don't have one, please create one from here: https://min.io/subscription''))"
    using subnetURLWithAuth_strategies [of "''''" ?e demoRegisterURL "''''" "demoWorld [[CHR 0x0A]]"] bad
    by simp
  from a b c d show ?thesis by (intro conjI)
qed

text \<open>
  C4, on the code. With no API key and no license, a login that succeeds and an
  organizations request that the registry answers with status 500:
  \<open>getSubnetAccID\<close> returns an error, and \<open>subnetURLWithAuth\<close> returns the empty URL
  with a nil error (it returns \<open>e\<close>, the login's error, not \<open>err\<close>).
\<close>

theorem subnetURLWithAuth_drops_lookup_error:
  "fst (getSubnetAccID
          (demoSubnetEnv demoLoginPlain
             (Inr \<lparr>StatusCode = 500, RespBody = ''down'', ReadErr = None\<rparr>))
          (Some [(''Authorization'', ''Bearer tok-1'')])
          (snd (subnetLogin
                  (demoSubnetEnv demoLoginPlain
                     (Inr \<lparr>StatusCode = 500, RespBody = ''down'', ReadErr = None\<rparr>))
                  (demoWorld [''alice'' @ [CHR 0x0A], ''pw'']))))
     = Returns ('''', Some (errorString ''Request failed with code 500 and error: down''))
   \<and> fst (subnetURLWithAuth
          (demoSubnetEnv demoLoginPlain
             (Inr \<lparr>StatusCode = 500, RespBody = ''down'', ReadErr = None\<rparr>))
          demoRegisterURL '''' '''' (demoWorld [''alice'' @ [CHR 0x0A], ''pw'']))
     = Returns ('''', Some [(''Authorization'', ''Bearer tok-1'')], None)"
  by (simp add: demo_subnet_defs demo_docs showInt_def digitChar_def)

text \<open>
  C5, on the code. With three organizations, the choices \<open>0\<close> and \<open>-1\<close> pass the only
  check (\<open>idx > len(orgs)\<close>) and \<open>orgs[idx-1]\<close> panics.
\<close>

theorem getSubnetAccID_nonpositive_choice_panics:
  "fst (getSubnetAccID (demoSubnetEnv demoLoginPlain (demoOK demoThreeOrgs)) None
          (demoWorld [''0'' @ [CHR 0x0A]]))
     = Panics ''runtime error: index out of range''
   \<and> fst (getSubnetAccID (demoSubnetEnv demoLoginPlain (demoOK demoThreeOrgs)) None
          (demoWorld [''-1'' @ [CHR 0x0A]]))
     = Panics ''runtime error: index out of range''"
  by (simp add: demo_subnet_defs demo_docs)

text \<open>
  C6, on the code. With no organization, \<open>idx\<close> stays 1 and \<open>orgs[0]\<close> panics.
\<close>

theorem getSubnetAccID_no_organization_panics:
  "fst (getSubnetAccID (demoSubnetEnv demoLoginPlain (demoOK ''[]'')) None (demoWorld []))
     = Panics ''runtime error: index out of range''"
  by (simp add: demo_subnet_defs demo_docs)

end
